theory Spec2Isabelle
  imports Complex_Main "HOL-Library.Log_Nat"
begin

section \<open>Data model\<close>

text \<open>
  The statistics job (\<^verbatim>\<open>1_data_analysis.py\<close>) reads a survey table into a pandas
  data frame and runs five routines over it. A cell of the table is missing (pandas' NaN),
  a number or a string; a column (a pandas Series) is a list of cells in row order; the
  data frame is the list of its named columns in file order (the order matters only to
  the sensor routine, which addresses columns from the end).

  A number is a real: integer and float cells with the same value are the same cell (as
  \<^verbatim>\<open>1 == 1.0\<close> in Python). The float64 values are the reals that rounding leaves fixed
  (see \<open>fl\<close> below). The percentages of Tables 1 and 2 and the sensor mean are rounded
  as pandas computes them; the cells of Table 3 and the Pearson coefficient are kept as
  exact quotients.

  Two things are decided by the installed libraries and not by the source, and are
  parameters of the model: whether \<^verbatim>\<open>Series.get\<close> with an integer key falls back to
  a position (the flag \<open>positional\<close>: True for pandas before 3.0, False from 3.0 on), and
  the order in which numpy adds the numbers of a column (the function \<open>fsum\<close>). The
  p-value that scipy computes is a third parameter (\<open>pvalue\<close>).
\<close>

datatype cell = Missing | Num real | Str string

type_synonym series = "cell list"

type_synonym dataframe = "(string \<times> series) list"

text \<open>A float result of a library call: a finite number or NaN.\<close>

datatype pyfloat = NaN | Fin real

text \<open>
  The exceptions the library calls raise. A KeyError carries the name of the column that
  was not found, a ValueError its message.
\<close>

datatype error = KeyError string | IndexError | ValueError string | TypeError

fun is_str :: "cell \<Rightarrow> bool" where
  "is_str (Str s) = True"
| "is_str v = False"

text \<open>
  What a routine writes to standard output: a line of text, or one printed table. A
  printed data frame is kept as the table it shows, not as its text layout.
\<close>

datatype out =
    Text string
  | PercentageFrame "(cell \<times> real) list"
  | PerceptionFrame "(string \<times> real \<times> real \<times> real) list"
  | MatrixFrame "(string \<times> (cell \<times> real) list) list"
  | CorrelationLine string string pyfloat string
  | SensorFrame "(string \<times> pyfloat list) list"

text \<open>
  A routine run: what it printed, and the exception that ended it (\<open>None\<close> when it
  returned). Nothing in the job catches an exception.
\<close>

type_synonym run = "out list \<times> error option"

section \<open>Float64 arithmetic\<close>

text \<open>
  An arithmetic operation on float64 values returns the exact result rounded to the
  nearest float64 value, ties going to the even significand. \<open>binade a\<close> is the exponent
  of the power of two at or below a positive \<open>a\<close>; a float64 value has 53 significant
  bits, so rounding happens at the bit of weight \<open>2 powi (binade a - 52)\<close>. (Overflow and
  the subnormal range are not modelled; no statement below comes near them.)
\<close>

definition round_half_even :: "real \<Rightarrow> int" where
  "round_half_even x =
     (let f = \<lfloor>x\<rfloor>; d = x - of_int f
      in if d < 1 / 2 then f else if 1 / 2 < d then f + 1 else if even f then f else f + 1)"

definition binade :: "real \<Rightarrow> int" where
  "binade a = (if 1 \<le> a then bitlen \<lfloor>a\<rfloor> - 1 else - bitlen (\<lceil>1 / a\<rceil> - 1))"

definition fl :: "real \<Rightarrow> real" where
  "fl x =
     (if x = 0 then 0
      else let e = binade \<bar>x\<bar> - 52
           in of_int (round_half_even (x / 2 powi e)) * 2 powi e)"

text \<open>
  The float64 sums of a list of numbers: the numbers are added two partial sums at a time,
  each addition rounded, in some order and grouping. numpy fixes the order (in blocks,
  for a long column); the source does not, and the model takes the sum function as the
  parameter \<open>fsum\<close>, of which the statements below assume at most that it returns one
  of these sums.
\<close>

inductive float_sum :: "real list \<Rightarrow> real \<Rightarrow> bool" where
  none: "float_sum [] 0"
| one: "float_sum [v] v"
| add: "float_sum xs a \<Longrightarrow> float_sum ys b
          \<Longrightarrow> (\<And>v. count_list zs v = count_list xs v + count_list ys v)
          \<Longrightarrow> float_sum zs (fl (a + b))"

text \<open>One such sum: from the first number to the last.\<close>

definition seq_sum :: "real list \<Rightarrow> real" where
  "seq_sum xs = foldl (\<lambda>a b. fl (a + b)) 0 xs"

section \<open>The pandas operations the routines call\<close>

text \<open>\<^verbatim>\<open>df[col]\<close>: the column of that name, KeyError when the frame has none.\<close>

definition getitem :: "dataframe \<Rightarrow> string \<Rightarrow> error + series" where
  "getitem df col = (case map_of df col of None \<Rightarrow> Inl (KeyError col) | Some s \<Rightarrow> Inr s)"

text \<open>\<^verbatim>\<open>Series.dropna()\<close>: the non-missing cells.\<close>

definition dropna :: "series \<Rightarrow> series" where
  "dropna xs = filter (\<lambda>v. v \<noteq> Missing) xs"

text \<open>
  \<^verbatim>\<open>s.value_counts(normalize=True) * 100\<close>: one entry per distinct non-missing value,
  the most frequent value first and values of equal frequency in the order of their first
  occurrence. An entry holds the count divided by the number of non-missing cells, then
  multiplied by 100, both in float64.
\<close>

definition first_seen :: "series \<Rightarrow> cell list" where
  "first_seen vs = rev (remdups (rev vs))"

definition value_counts_pct :: "series \<Rightarrow> (cell \<times> real) list" where
  "value_counts_pct xs =
     (let vs = dropna xs
      in map (\<lambda>v. (v, fl (fl (real (count_list vs v) / real (length vs)) * 100)))
           (sort_key (\<lambda>v. - int (count_list vs v)) (first_seen vs)))"

text \<open>
  \<^verbatim>\<open>counts.get(key, 0)\<close> with a text key: the entry with that label, 0 when there is
  none.
\<close>

definition get_or_zero :: "(cell \<times> real) list \<Rightarrow> cell \<Rightarrow> real" where
  "get_or_zero counts k = (case map_of counts k of None \<Rightarrow> 0 | Some p \<Rightarrow> p)"

text \<open>
  \<^verbatim>\<open>counts.get(k, 0)\<close> with an integer key (the routine uses 1, 2 and 0). pandas from
  3.0 on reads the key as a label. pandas before 3.0 does so only when a label is a
  number; when every label is text it reads the key as a position, and gives the default
  when there is no entry at that position. (A column that mixes numbers and text is taken
  to hold integer codes, for which both read the key as a label.)
\<close>

definition text_only :: "(cell \<times> real) list \<Rightarrow> bool" where
  "text_only counts = list_all (\<lambda>(k, p). is_str k) counts"

definition get_int :: "bool \<Rightarrow> (cell \<times> real) list \<Rightarrow> nat \<Rightarrow> real" where
  "get_int positional counts k =
     (if positional \<and> text_only counts
      then (if k < length counts then snd (counts ! k) else 0)
      else get_or_zero counts (Num (real k)))"

definition newline :: string where
  "newline = [CHR 0x0A]"

section \<open>Table 1: \<^verbatim>\<open>analyze_demographics\<close>\<close>

definition duration_col :: string where
  "duration_col = ''Working Hours/ Study Hours''"

definition duration_mapping :: "(string \<times> string) list" where
  "duration_mapping =
     [(''1 - 2 hours'', ''< 2 Hours''),
      (''2 - 4 hours'', ''2 - 4 Hours''),
      (''> 4'', ''> 4 Hours'')]"

text \<open>
  The local variables of the routine after line 25. \<^verbatim>\<open>duration_mapping\<close> is assigned
  and never read; \<^verbatim>\<open>duration_dist\<close> is computed from the raw column and never read.
\<close>

record demographics =
  status_counts :: "(cell \<times> real) list"
  gender_counts :: "(cell \<times> real) list"
  duration_dist :: "(cell \<times> real) list"

definition demographics_locals :: "dataframe \<Rightarrow> error + demographics" where
  "demographics_locals df =
     (case getitem df ''Status'' of Inl e \<Rightarrow> Inl e | Inr status \<Rightarrow>
     (case getitem df ''Gender'' of Inl e \<Rightarrow> Inl e | Inr gender \<Rightarrow>
     (case getitem df duration_col of Inl e \<Rightarrow> Inl e | Inr duration \<Rightarrow>
        Inr \<lparr>status_counts = value_counts_pct status,
             gender_counts = value_counts_pct gender,
             duration_dist = value_counts_pct duration\<rparr>)))"

definition analyze_demographics :: "dataframe \<Rightarrow> run" where
  "analyze_demographics df =
     (case demographics_locals df of
        Inl e \<Rightarrow> ([], Some e)
      | Inr d \<Rightarrow>
          ([Text ''--- Table 1: Socio-Demographics Analysis ---'',
            PercentageFrame (status_counts d),
            PercentageFrame (gender_counts d),
            Text newline], None))"

section \<open>Table 2: \<^verbatim>\<open>analyze_perception\<close>\<close>

definition stressors :: "(string \<times> string) list" where
  "stressors =
     [(''Stuffy Air'', ''Environment [Stuffy '' @ [CHR 0x22] @ ''bad'' @ [CHR 0x22] @ '' air]''),
      (''High Temp'', ''Environment [Room temperature too high]''),
      (''Noise'', ''Environment [Noise]'')]"

text \<open>One pass of the loop body: the row appended to \<^verbatim>\<open>results\<close> for a stressor column.\<close>

definition perception_row ::
  "bool \<Rightarrow> string \<Rightarrow> series \<Rightarrow> string \<times> real \<times> real \<times> real" where
  "perception_row positional label xs =
     (let counts = value_counts_pct xs
      in (label,
          fl (get_int positional counts 1 + get_or_zero counts (Str ''Yes'')),
          get_int positional counts 2,
          fl (get_int positional counts 0 + get_or_zero counts (Str ''No''))))"

fun perception_rows ::
  "bool \<Rightarrow> dataframe \<Rightarrow> (string \<times> string) list
     \<Rightarrow> error + (string \<times> real \<times> real \<times> real) list" where
  "perception_rows positional df [] = Inr []"
| "perception_rows positional df ((label, col) # rest) =
     (case getitem df col of
        Inl e \<Rightarrow> Inl e
      | Inr xs \<Rightarrow>
          (case perception_rows positional df rest of
             Inl e \<Rightarrow> Inl e
           | Inr rows \<Rightarrow> Inr (perception_row positional label xs # rows)))"

definition analyze_perception :: "bool \<Rightarrow> dataframe \<Rightarrow> run" where
  "analyze_perception positional df =
     (case perception_rows positional df stressors of
        Inl e \<Rightarrow> ([], Some e)
      | Inr results \<Rightarrow>
          ([Text ''--- Table 2: Environmental Perception ---'',
            PerceptionFrame results,
            Text newline], None))"

section \<open>Table 3: \<^verbatim>\<open>analyze_symptoms_matrix\<close>\<close>

definition matrix_symptoms :: "string list" where
  "matrix_symptoms =
     [''Symptoms [Fatigue]'', ''Symptoms [Headache]'',
      ''Symptoms [Difficulties concentrating]'']"

definition floor_col :: string where
  "floor_col = ''Floor''"

text \<open>
  \<^verbatim>\<open>df.groupby(floor_col)\<close>: one group per distinct floor value; rows whose floor is
  missing belong to no group. (pandas sorts the group keys; their order is not modelled.)
\<close>

definition group_keys :: "series \<Rightarrow> cell list" where
  "group_keys floors = remdups (dropna floors)"

text \<open>The cells of column \<open>xs\<close> in the rows of floor \<open>f\<close>, missing ones included.\<close>

definition group_cells :: "series \<Rightarrow> series \<Rightarrow> cell \<Rightarrow> series" where
  "group_cells floors xs f = map snd (filter (\<lambda>(g, x). g = f) (zip floors xs))"

text \<open>
  \<^verbatim>\<open>lambda x: (x == 1).mean() * 100\<close>: the comparison gives one boolean per cell of the
  group (False for a missing cell and for a string), and the mean is taken over all of
  them.
\<close>

definition present_pct :: "series \<Rightarrow> real" where
  "present_pct x = real (length (filter (\<lambda>v. v = Num 1) x)) / real (length x) * 100"

definition symptom_by_floor :: "series \<Rightarrow> series \<Rightarrow> (cell \<times> real) list" where
  "symptom_by_floor floors xs =
     map (\<lambda>f. (f, present_pct (group_cells floors xs f))) (group_keys floors)"

fun matrix_columns ::
  "dataframe \<Rightarrow> string list \<Rightarrow> error + (string \<times> (cell \<times> real) list) list" where
  "matrix_columns df [] = Inr []"
| "matrix_columns df (symptom # rest) =
     (case getitem df floor_col of
        Inl e \<Rightarrow> Inl e
      | Inr floors \<Rightarrow>
          (case getitem df symptom of
             Inl e \<Rightarrow> Inl e
           | Inr xs \<Rightarrow>
               (case matrix_columns df rest of
                  Inl e \<Rightarrow> Inl e
                | Inr cols \<Rightarrow> Inr ((symptom, symptom_by_floor floors xs) # cols))))"

definition analyze_symptoms_matrix :: "dataframe \<Rightarrow> run" where
  "analyze_symptoms_matrix df =
     (case matrix_columns df matrix_symptoms of
        Inl e \<Rightarrow> ([], Some e)
      | Inr matrix \<Rightarrow>
          ([Text ''--- Table 3: Symptoms Matrix (%) by Floor ---'',
            MatrixFrame matrix,
            Text newline], None))"

section \<open>Table 4: \<^verbatim>\<open>analyze_correlations\<close>\<close>

definition conditions :: "string list" where
  "conditions =
     [''Condition [Do you have too much work to do?]'',
      ''Condition [Do you regard your work as interesting and stimulating?]'',
      ''Condition [Do you have any opportunity to influence your working conditions?]'']"

definition correlation_symptoms :: "string list" where
  "correlation_symptoms =
     [''Symptoms [Suffering from stress]'', ''Symptoms [Fatigue]'',
      ''Symptoms [Difficulties concentrating]'']"

text \<open>\<^verbatim>\<open>df[[cond, symp]].dropna()\<close>: the rows in which neither cell is missing.\<close>

definition paired_dropna :: "series \<Rightarrow> series \<Rightarrow> (cell \<times> cell) list" where
  "paired_dropna cs ss = filter (\<lambda>(c, s). c \<noteq> Missing \<and> s \<noteq> Missing) (zip cs ss)"

text \<open>
  \<^verbatim>\<open>.map({'Yes': 1, 'No': 0})\<close>: a cell that is a key of the dictionary becomes its
  value, every other cell becomes NaN.
\<close>

definition map_yes_no :: "cell \<Rightarrow> pyfloat" where
  "map_yes_no v = (if v = Str ''Yes'' then Fin 1 else if v = Str ''No'' then Fin 0 else NaN)"

text \<open>\<^verbatim>\<open>pd.to_numeric(..., errors='coerce')\<close> on a column that is numeric already.\<close>

definition to_numeric :: "pyfloat \<Rightarrow> pyfloat" where
  "to_numeric x = x"

text \<open>\<^verbatim>\<open>.fillna(0)\<close>.\<close>

fun fillna_zero :: "pyfloat \<Rightarrow> real" where
  "fillna_zero NaN = 0"
| "fillna_zero (Fin x) = x"

definition convert :: "series \<Rightarrow> real list" where
  "convert xs = map (\<lambda>v. fillna_zero (to_numeric (map_yes_no v))) xs"

definition arith_mean :: "real list \<Rightarrow> real" where
  "arith_mean xs = sum_list xs / real (length xs)"

text \<open>The product-moment coefficient of two sequences, clipped to \<open>[-1, 1]\<close>.\<close>

definition pearson_statistic :: "real list \<Rightarrow> real list \<Rightarrow> real" where
  "pearson_statistic x y =
     (let xm = map (\<lambda>v. v - arith_mean x) x;
          ym = map (\<lambda>v. v - arith_mean y) y;
          r = sum_list (map2 (*) xm ym)
              / (sqrt (sum_list (map (\<lambda>v. v * v) xm)) * sqrt (sum_list (map (\<lambda>v. v * v) ym)))
      in max (- 1) (min 1 r))"

text \<open>
  \<^verbatim>\<open>scipy.stats.pearsonr(x, y)\<close>: a ValueError for fewer than two observations; NaN for
  both results (with a warning) when either input is constant; for two observations the
  coefficient is the product of the signs of the two differences and \<open>p = 1\<close>; otherwise
  the coefficient and its two-sided p-value. The p-value of a coefficient \<open>r\<close> from \<open>n\<close>
  observations is computed inside scipy and is a parameter \<open>pvalue\<close> of the model.
\<close>

text \<open>scipy's test for a constant input, \<^verbatim>\<open>(x == x[0]).all()\<close>.\<close>

definition is_constant :: "real list \<Rightarrow> bool" where
  "is_constant x = list_all (\<lambda>v. v = hd x) x"

definition pearsonr ::
  "(nat \<Rightarrow> real \<Rightarrow> real) \<Rightarrow> real list \<Rightarrow> real list \<Rightarrow> error + (pyfloat \<times> pyfloat)" where
  "pearsonr pvalue x y =
     (let n = length x in
      if n \<noteq> length y then Inl (ValueError ''x and y must have the same length.'')
      else if n < 2 then Inl (ValueError ''x and y must have length at least 2.'')
      else if is_constant x \<or> is_constant y then Inr (NaN, NaN)
      else if n = 2 then Inr (Fin (sgn (x ! 1 - x ! 0) * sgn (y ! 1 - y ! 0)), Fin 1)
      else let r = pearson_statistic x y in Inr (Fin r, Fin (pvalue n r)))"

text \<open>A comparison \<^verbatim>\<open>p < c\<close> with a float that may be NaN: False on NaN.\<close>

fun float_less :: "pyfloat \<Rightarrow> real \<Rightarrow> bool" where
  "float_less NaN c = False"
| "float_less (Fin p) c = (p < c)"

text \<open>Line 99: \<^verbatim>\<open>sig = "**" if p_val < 0.01 else "*" if p_val < 0.05 else ""\<close>.\<close>

definition sig :: "pyfloat \<Rightarrow> string" where
  "sig p_val =
     (if float_less p_val (1 / 100) then ''**''
      else if float_less p_val (5 / 100) then ''*''
      else [])"

text \<open>
  Lines 93 to 96 for one pair: the rows with both cells present, and the two converted
  columns \<^verbatim>\<open>c_val\<close> and \<^verbatim>\<open>s_val\<close>.
\<close>

definition pair_values :: "dataframe \<Rightarrow> string \<Rightarrow> string \<Rightarrow> error + (real list \<times> real list)" where
  "pair_values df cond sympt =
     (case getitem df cond of Inl e \<Rightarrow> Inl e | Inr cs \<Rightarrow>
     (case getitem df sympt of Inl e \<Rightarrow> Inl e | Inr ss \<Rightarrow>
        (let subset = paired_dropna cs ss
         in Inr (convert (map fst subset), convert (map snd subset)))))"

text \<open>
  The body of the inner loop for one pair. The printed line is kept as its parts: the
  two truncated column names, \<open>r_val\<close> (printed with two decimals) and the marker.
\<close>

definition correlation_pair ::
  "(nat \<Rightarrow> real \<Rightarrow> real) \<Rightarrow> dataframe \<Rightarrow> string \<Rightarrow> string \<Rightarrow> error + out" where
  "correlation_pair pvalue df cond sympt =
     (case pair_values df cond sympt of
        Inl e \<Rightarrow> Inl e
      | Inr (c_val, s_val) \<Rightarrow>
          (case pearsonr pvalue c_val s_val of
             Inl e \<Rightarrow> Inl e
           | Inr (r_val, p_val) \<Rightarrow>
               Inr (CorrelationLine (take 15 cond) (take 15 sympt) r_val (sig p_val))))"

text \<open>
  The two nested loops, over the pairs in order; an exception keeps the lines printed so
  far.
\<close>

fun correlation_loop ::
  "(nat \<Rightarrow> real \<Rightarrow> real) \<Rightarrow> dataframe \<Rightarrow> (string \<times> string) list \<Rightarrow> run" where
  "correlation_loop pvalue df [] = ([], None)"
| "correlation_loop pvalue df ((cond, sympt) # rest) =
     (case correlation_pair pvalue df cond sympt of
        Inl e \<Rightarrow> ([], Some e)
      | Inr line \<Rightarrow>
          (case correlation_loop pvalue df rest of (lines, e) \<Rightarrow> (line # lines, e)))"

definition analyze_correlations :: "(nat \<Rightarrow> real \<Rightarrow> real) \<Rightarrow> dataframe \<Rightarrow> run" where
  "analyze_correlations pvalue df =
     (case correlation_loop pvalue df (List.product conditions correlation_symptoms) of
        (lines, Some e) \<Rightarrow>
          (Text ''--- Table 4: Correlation Coefficient (r) Matrix ---'' # lines, Some e)
      | (lines, None) \<Rightarrow>
          (Text ''--- Table 4: Correlation Coefficient (r) Matrix ---'' # lines @ [Text newline],
           None))"

section \<open>Table 5: \<^verbatim>\<open>analyze_sensors\<close>\<close>

text \<open>\<^verbatim>\<open>df.iloc[:, -k]\<close>: the \<open>k\<close>-th column from the end, IndexError when there are fewer.\<close>

definition iloc_from_end :: "dataframe \<Rightarrow> nat \<Rightarrow> error + series" where
  "iloc_from_end df k =
     (if 1 \<le> k \<and> k \<le> length df then Inr (snd (df ! (length df - k))) else Inl IndexError)"

text \<open>The numbers of a column, missing cells skipped (pandas' \<^verbatim>\<open>skipna=True\<close>).\<close>

fun numbers :: "series \<Rightarrow> real list" where
  "numbers [] = []"
| "numbers (Num x # xs) = x # numbers xs"
| "numbers (v # xs) = numbers xs"

definition series_min :: "series \<Rightarrow> pyfloat" where
  "series_min xs = (case numbers xs of [] \<Rightarrow> NaN | v # vs \<Rightarrow> Fin (fold min vs v))"

definition series_max :: "series \<Rightarrow> pyfloat" where
  "series_max xs = (case numbers xs of [] \<Rightarrow> NaN | v # vs \<Rightarrow> Fin (fold max vs v))"

text \<open>
  \<^verbatim>\<open>.mean()\<close>: the float64 sum of the numbers divided by their count (the numbers of
  an integer column are added as float64 too).
\<close>

definition series_mean :: "(real list \<Rightarrow> real) \<Rightarrow> series \<Rightarrow> pyfloat" where
  "series_mean fsum xs =
     (case numbers xs of
        [] \<Rightarrow> NaN
      | v # vs \<Rightarrow> Fin (fl (fsum (v # vs) / real (length (v # vs)))))"

text \<open>
  One entry of \<^verbatim>\<open>sensor_summary\<close>: minimum, maximum and mean of the \<open>k\<close>-th column from
  the end. On a column that holds a string the three calls do not all return (the mean
  of strings is a TypeError at the latest).
\<close>

definition sensor_entry :: "(real list \<Rightarrow> real) \<Rightarrow> dataframe \<Rightarrow> nat \<Rightarrow> error + pyfloat list" where
  "sensor_entry fsum df k =
     (case iloc_from_end df k of
        Inl e \<Rightarrow> Inl e
      | Inr xs \<Rightarrow>
          if list_ex is_str xs then Inl TypeError
          else Inr [series_min xs, series_max xs, series_mean fsum xs])"

definition analyze_sensors :: "(real list \<Rightarrow> real) \<Rightarrow> dataframe \<Rightarrow> run" where
  "analyze_sensors fsum df =
     (case sensor_entry fsum df 4 of Inl e \<Rightarrow> ([], Some e) | Inr co2 \<Rightarrow>
     (case sensor_entry fsum df 6 of Inl e \<Rightarrow> ([], Some e) | Inr pm25 \<Rightarrow>
     (case sensor_entry fsum df 2 of Inl e \<Rightarrow> ([], Some e) | Inr tvoc \<Rightarrow>
        ([Text ''--- Table 5: Sensor Analysis (Min, Max, Mean) ---'',
          SensorFrame [(''CO2 (ppm)'', co2), (''PM2.5 (ug/m3)'', pm25), (''TVOC (ppb)'', tvoc)],
          Text newline], None))))"

section \<open>The job: \<^verbatim>\<open>__main__\<close>\<close>

text \<open>
  Statements in sequence: the first exception ends the job, and what was printed stays.
  The two \<^verbatim>\<open>read_csv\<close> calls at the top of the module run before the job; the job is
  modelled from the loaded survey table on (the second table is never used).
\<close>

fun run_all :: "run list \<Rightarrow> run" where
  "run_all [] = ([], None)"
| "run_all ((printed, Some e) # rest) = (printed, Some e)"
| "run_all ((printed, None) # rest) =
     (case run_all rest of (later, e) \<Rightarrow> (printed @ later, e))"

definition banner :: run where
  "banner =
     ([Text ''RESEARCH ANALYSIS: PUBLIC ADMIN JOURNAL'', Text (replicate 64 (CHR ''=''))], None)"

definition closing_note :: run where
  "closing_note =
     ([Text ''Note: Technical performance metrics (Table 6-8) are derived from the '',
       Text ''TinyML model deployment logs and hardware profiling on the MCU.''], None)"

text \<open>The five analysis modules in the order of lines 130 to 134.\<close>

definition modules ::
  "(nat \<Rightarrow> real \<Rightarrow> real) \<Rightarrow> bool \<Rightarrow> (real list \<Rightarrow> real) \<Rightarrow> dataframe \<Rightarrow> run list" where
  "modules pvalue positional fsum df =
     [analyze_demographics df,
      analyze_perception positional df,
      analyze_symptoms_matrix df,
      analyze_correlations pvalue df,
      analyze_sensors fsum df]"

definition main ::
  "(nat \<Rightarrow> real \<Rightarrow> real) \<Rightarrow> bool \<Rightarrow> (real list \<Rightarrow> real) \<Rightarrow> dataframe \<Rightarrow> run" where
  "main pvalue positional fsum survey_data =
     (let clean_df = survey_data
      in run_all (banner # modules pvalue positional fsum clean_df @ [closing_note]))"

section \<open>Sample tables\<close>

text \<open>Small survey tables on which the routines are evaluated below.\<close>

text \<open>
  Scenario D of the specification: a condition column of text answers and a symptom
  column of numeric codes.
\<close>

definition scenario_D :: dataframe where
  "scenario_D =
     [(''Condition [Do you have too much work to do?]'',
         [Str ''Yes'', Str ''No'', Str ''Yes'', Str ''No'']),
      (''Symptoms [Suffering from stress]'', [Num 1, Num 0, Num 1, Num 0])]"

text \<open>
  Two respondents with opposite text answers.
\<close>

definition two_rows :: dataframe where
  "two_rows =
     [(''Condition [Do you have too much work to do?]'', [Str ''Yes'', Str ''No'']),
      (''Symptoms [Suffering from stress]'', [Str ''No'', Str ''Yes''])]"

text \<open>
  Two respondents, one of whom left the condition unanswered: one paired observation.
\<close>

definition one_row :: dataframe where
  "one_row =
     [(''Condition [Do you have too much work to do?]'', [Str ''Yes'', Missing]),
      (''Symptoms [Suffering from stress]'', [Str ''No'', Str ''Yes''])]"

text \<open>
  A table with the three columns that Table 1 reads.
\<close>

definition three_durations :: dataframe where
  "three_durations =
     [(''Status'', [Str ''Staff'', Str ''Student'']),
      (''Gender'', [Str ''Female'', Str ''Male'']),
      (''Working Hours/ Study Hours'', [Str ''1 - 2 hours'', Str ''> 4''])]"

text \<open>
  A complete table of two respondents, with six sensor columns at its end, except that it
  has no floor column.
\<close>

definition no_floor :: dataframe where
  "no_floor =
     [(''Status'', [Str ''Staff'', Str ''Student'']),
      (''Gender'', [Str ''Female'', Str ''Male'']),
      (''Working Hours/ Study Hours'', [Str ''1 - 2 hours'', Str ''> 4'']),
      (''Environment [Stuffy '' @ [CHR 0x22] @ ''bad'' @ [CHR 0x22] @ '' air]'', [Num 1, Num 0]),
      (''Environment [Room temperature too high]'', [Str ''Yes'', Str ''No'']),
      (''Environment [Noise]'', [Num 2, Num 2]),
      (''Symptoms [Fatigue]'', [Str ''Yes'', Str ''No'']),
      (''Symptoms [Headache]'', [Str ''No'', Str ''Yes'']),
      (''Symptoms [Difficulties concentrating]'', [Str ''Yes'', Str ''No'']),
      (''Symptoms [Suffering from stress]'', [Str ''No'', Str ''Yes'']),
      (''Condition [Do you have too much work to do?]'', [Str ''Yes'', Str ''No'']),
      (''Condition [Do you regard your work as interesting and stimulating?]'',
         [Str ''No'', Str ''Yes'']),
      (''Condition [Do you have any opportunity to influence your working conditions?]'',
         [Str ''Yes'', Str ''No'']),
      (''PM2.5'', [Num 12, Num 30]),
      (''Humidity'', [Num 60, Num 61]),
      (''CO2'', [Num 400, Num 1500]),
      (''Temperature'', [Num 24, Num 25]),
      (''TVOC'', [Num 100, Num 300]),
      (''Label'', [Num 0, Num 1])]"

text \<open>
  Three stressor columns of numeric answers in the coding of the comment at line 34:
  1 (often), 2 (sometimes), 3 (rarely).
\<close>

definition codes_1_2_3 :: dataframe where
  "codes_1_2_3 =
     [(''Environment [Stuffy '' @ [CHR 0x22] @ ''bad'' @ [CHR 0x22] @ '' air]'', [Num 1, Num 3]),
      (''Environment [Room temperature too high]'', [Num 2, Num 3]),
      (''Environment [Noise]'', [Num 1, Num 2])]"

text \<open>
  Three stressor columns of text answers.
\<close>

definition text_answers :: dataframe where
  "text_answers =
     [(''Environment [Stuffy '' @ [CHR 0x22] @ ''bad'' @ [CHR 0x22] @ '' air]'',
         [Str ''Yes'', Str ''No'']),
      (''Environment [Room temperature too high]'', [Str ''Yes'', Str ''Yes'']),
      (''Environment [Noise]'', [Str ''No'', Str ''No''])]"

text \<open>
  A table of six sensor columns: the CO2 column (fourth from the end) is that of
  scenario E with a missing cell added, the PM2.5 column (sixth from the end) has a
  single reading.
\<close>

definition six_sensors :: dataframe where
  "six_sensors =
     [(''PM2.5'', [Missing, Num 7, Missing, Missing]),
      (''Humidity'', [Num 60, Num 61, Num 62, Num 63]),
      (''CO2'', [Num 400, Missing, Num 420, Num 1500]),
      (''Temperature'', [Num 24, Num 25, Num 24, Num 25]),
      (''TVOC'', [Num 100, Num 300, Num 100, Num 300]),
      (''Label'', [Num 0, Num 1, Num 0, Num 1])]"

text \<open>
  Six sensor columns of three rows; the PM2.5 readings are all 0.1, that is, the float64
  value nearest to one tenth.
\<close>

definition tenths :: dataframe where
  "tenths =
     [(''PM2.5'', [Num (fl (1 / 10)), Num (fl (1 / 10)), Num (fl (1 / 10))]),
      (''Humidity'', [Num 60, Num 61, Num 62]),
      (''CO2'', [Num 400, Num 420, Num 1500]),
      (''Temperature'', [Num 24, Num 25, Num 24]),
      (''TVOC'', [Num 100, Num 300, Num 200]),
      (''Label'', [Num 0, Num 1, Num 0])]"

section \<open>Float64 rounding and sums\<close>

text \<open>
  Unfolding these evaluates \<open>fl\<close> at a given number.
\<close>

lemmas float_eval = fl_def binade_def round_half_even_def compute_bitlen

text \<open>
  \<open>binade a\<close> is the exponent of the power of two at or below a positive number \<open>a\<close>.
\<close>

lemma powi_neg: "0 \<le> k \<Longrightarrow> (2::real) powi (- k) = 1 / 2 ^ nat k"
  by (simp add: power_int_minus power_int_def field_simps)

lemma binade_ge_one:
  assumes "1 \<le> a"
  shows "2 powi binade a \<le> a \<and> a < 2 powi (binade a + 1)"
proof -
  let ?f = "\<lfloor>a\<rfloor>"
  have f: "0 < ?f" using assms by simp
  from bitlen_bounds [OF f] have lo: "2 ^ nat (bitlen ?f - 1) \<le> ?f" and hi: "?f < 2 ^ nat (bitlen ?f)"
    by simp_all
  have pos: "0 < bitlen ?f"
    using f bitlen_nonneg [of "?f div 2"] by (subst compute_bitlen) simp
  have b: "binade a = bitlen ?f - 1" using assms by (simp add: binade_def)
  have "(2::real) powi (bitlen ?f - 1) = 2 ^ nat (bitlen ?f - 1)"
    using pos by (simp add: power_int_def)
  also have "\<dots> = of_int (2 ^ nat (bitlen ?f - 1))" by simp
  also have "\<dots> \<le> of_int ?f" using lo by (simp only: of_int_le_iff)
  also have "\<dots> \<le> a" by simp
  finally have 1: "2 powi binade a \<le> a" by (simp add: b)
  have "?f + 1 \<le> 2 ^ nat (bitlen ?f)" using hi by simp
  then have "(of_int (?f + 1) :: real) \<le> of_int (2 ^ nat (bitlen ?f))"
    by (simp only: of_int_le_iff)
  moreover have "a < of_int (?f + 1)" by simp
  ultimately have "a < of_int (2 ^ nat (bitlen ?f))" by linarith
  also have "\<dots> = 2 powi (bitlen ?f)" using pos by (simp add: power_int_def)
  finally have 2: "a < 2 powi (binade a + 1)" by (simp add: b)
  from 1 2 show ?thesis ..
qed

lemma binade_lt_one:
  assumes "0 < a" and "a < 1"
  shows "2 powi binade a \<le> a \<and> a < 2 powi (binade a + 1)"
proof -
  let ?m = "\<lceil>1 / a\<rceil> - 1"
  have y: "1 < 1 / a" using assms by simp
  then have m: "0 < ?m" by linarith
  from bitlen_bounds [OF m] have lo: "2 ^ nat (bitlen ?m - 1) \<le> ?m" and hi: "?m < 2 ^ nat (bitlen ?m)"
    by simp_all
  have pos: "0 < bitlen ?m"
    using m bitlen_nonneg [of "?m div 2"] by (subst compute_bitlen) simp
  have b: "binade a = - bitlen ?m" using assms by (simp add: binade_def)
  have "1 / a \<le> of_int (?m + 1)" by simp
  also have "?m + 1 \<le> 2 ^ nat (bitlen ?m)" using hi by simp
  then have "(of_int (?m + 1) :: real) \<le> of_int (2 ^ nat (bitlen ?m))"
    by (simp only: of_int_le_iff)
  finally have "1 / a \<le> 2 ^ nat (bitlen ?m)" by simp
  then have "1 / 2 ^ nat (bitlen ?m) \<le> a"
    using assms(1) by (simp add: field_simps)
  moreover have "(2::real) powi (- bitlen ?m) = 1 / 2 ^ nat (bitlen ?m)"
    using pos by (simp add: power_int_def field_simps)
  ultimately have 1: "2 powi binade a \<le> a" by (simp add: b)
  have "of_int ?m < 1 / a" by linarith
  moreover have "(of_int (2 ^ nat (bitlen ?m - 1)) :: real) \<le> of_int ?m"
    using lo by (simp only: of_int_le_iff)
  ultimately have "2 ^ nat (bitlen ?m - 1) < 1 / a" by simp
  then have "a < 1 / 2 ^ nat (bitlen ?m - 1)"
    using assms(1) by (simp add: field_simps)
  moreover have "(2::real) powi (- bitlen ?m + 1) = 1 / 2 ^ nat (bitlen ?m - 1)"
  proof -
    have "(2::real) powi (- bitlen ?m + 1) = 2 powi (- (bitlen ?m - 1))"
      by (rule arg_cong [where f = "\<lambda>k. 2 powi k"]) simp
    also have "\<dots> = 1 / 2 ^ nat (bitlen ?m - 1)"
      using pos by (intro powi_neg) simp
    finally show ?thesis .
  qed
  ultimately have 2: "a < 2 powi (binade a + 1)" by (simp add: b)
  from 1 2 show ?thesis ..
qed

lemma binade_bounds: "0 < a \<Longrightarrow> 2 powi binade a \<le> a \<and> a < 2 powi (binade a + 1)"
  using binade_ge_one [of a] binade_lt_one [of a] by (cases "1 \<le> a") auto

text \<open>
  Adding from first to last gives one of the float64 sums; and the only float64 sum of a
  single float64 value is that value.
\<close>

lemma seq_sum_snoc: "seq_sum (xs @ [x]) = fl (seq_sum xs + x)"
  by (simp add: seq_sum_def)

lemma float_sum_seq_sum: "float_sum xs (seq_sum xs)"
proof (induction xs rule: rev_induct)
  case Nil
  show ?case by (simp add: seq_sum_def float_sum.none)
next
  case (snoc x xs)
  have "float_sum (xs @ [x]) (fl (seq_sum xs + x))"
    by (rule float_sum.add [OF snoc.IH float_sum.one [of x]]) simp
  then show ?case by (simp only: seq_sum_snoc)
qed

lemma no_counts_nil:
  assumes "\<And>v. count_list xs v = 0"
  shows "xs = []"
proof (cases xs)
  case Nil
  then show ?thesis .
next
  case (Cons a list)
  with assms [of a] show ?thesis by simp
qed

lemma float_sum_nil: "float_sum xs s \<Longrightarrow> xs = [] \<Longrightarrow> s = 0"
proof (induction rule: float_sum.induct)
  case none
  show ?case by simp
next
  case (one v)
  then show ?case by simp
next
  case (add xs a ys b zs)
  from add.prems add.hyps(3) have z: "count_list xs v = 0 \<and> count_list ys v = 0" for v
    by simp
  from z have "xs = []" by (intro no_counts_nil) simp
  moreover from z have "ys = []" by (intro no_counts_nil) simp
  ultimately show ?case using add.IH by (simp add: fl_def)
qed

lemma only_value: "set xs \<subseteq> {v} \<Longrightarrow> xs = replicate (count_list xs v) v"
  by (induction xs) auto

lemma float_sum_single: "float_sum xs s \<Longrightarrow> xs = [v] \<Longrightarrow> fl v = v \<Longrightarrow> s = v"
proof (induction rule: float_sum.induct)
  case none
  then show ?case by simp
next
  case (one u)
  then show ?case by simp
next
  case (add xs a ys b zs)
  have c: "count_list xs u + count_list ys u = (if u = v then 1 else 0)" for u
    using add.hyps(3) [of u, symmetric] add.prems(1) by (cases "v = u") auto
  have sx: "set xs \<subseteq> {v}"
  proof
    fix u assume "u \<in> set xs"
    then have "0 < count_list xs u" by (simp add: count_list_0_iff zero_less_iff_neq_zero)
    with c [of u] show "u \<in> {v}" by (cases "u = v") auto
  qed
  have sy: "set ys \<subseteq> {v}"
  proof
    fix u assume "u \<in> set ys"
    then have "0 < count_list ys u" by (simp add: count_list_0_iff zero_less_iff_neq_zero)
    with c [of u] show "u \<in> {v}" by (cases "u = v") auto
  qed
  from c [of v] have "(count_list xs v = 1 \<and> count_list ys v = 0)
                      \<or> (count_list xs v = 0 \<and> count_list ys v = 1)"
    by auto
  then show ?case
  proof
    assume h: "count_list xs v = 1 \<and> count_list ys v = 0"
    with only_value [OF sx] only_value [OF sy] have "xs = [v]" "ys = []" by simp_all
    with add.IH add.hyps(2) add.prems(2) have "a = v" "b = 0"
      by (auto dest: float_sum_nil)
    with add.prems(2) show ?thesis by simp
  next
    assume h: "count_list xs v = 0 \<and> count_list ys v = 1"
    with only_value [OF sx] only_value [OF sy] have "xs = []" "ys = [v]" by simp_all
    with add.IH add.hyps(1) add.prems(2) have "a = 0" "b = v"
      by (auto dest: float_sum_nil)
    with add.prems(2) show ?thesis by simp
  qed
qed

section \<open>Percentage distributions at concrete tables\<close>

text \<open>
  The shares of scenario A of the specification (status A, B, A) as float64 values:
  66.66666666666666 and 33.33333333333333, which sum to 99.99999999999999.
\<close>

lemma scenario_A_shares:
  "value_counts_pct [Str ''A'', Str ''B'', Str ''A''] =
     [(Str ''A'', 2345624805922133 / 35184372088832),
      (Str ''B'', 2345624805922133 / 70368744177664)]"
  by (simp add: value_counts_pct_def dropna_def first_seen_def float_eval)

lemmas perception_eval =
  analyze_perception_def stressors_def getitem_def perception_row_def value_counts_pct_def
  dropna_def first_seen_def get_int_def get_or_zero_def text_only_def

text \<open>
  Claim C5 at a concrete table. The answers are coded as the comment at line 34 says
  survey responses typically are: 1 (often), 2 (sometimes), 3 (rarely). The routine looks
  up 0 and "No" for the last bucket, never 3, so an answer 3 counts among the responses
  and falls in no bucket: the three percentages of the rows sum to 50, 50 and 100,
  whichever way integer keys are looked up. The claim says they sum to 100.
\<close>

theorem code_three_in_no_bucket:
  "analyze_perception positional codes_1_2_3 =
     ([Text ''--- Table 2: Environmental Perception ---'',
       PerceptionFrame
         [(''Stuffy Air'', 50, 0, 0), (''High Temp'', 0, 50, 0), (''Noise'', 50, 50, 0)],
       Text newline], None)"
  by (simp add: perception_eval codes_1_2_3_def float_eval)

text \<open>
  Claim C8 at a concrete table of text answers. With pandas before 3.0 the integer keys
  1 and 0 are read as positions in a distribution whose labels are all text, so a share
  of a text answer is added where the claim has the share of the code 1 or 0: answers
  Yes, No give 100, 0, 100, answers Yes, Yes give 100, 0, 100 and answers No, No give
  0, 0, 200. The claim (and the comment at line 47) has 50, 0, 50, then 100, 0, 0, then
  0, 0, 100, which is what label lookup gives.
\<close>

theorem text_answers_read_by_position:
  "analyze_perception True text_answers =
     ([Text ''--- Table 2: Environmental Perception ---'',
       PerceptionFrame
         [(''Stuffy Air'', 100, 0, 100), (''High Temp'', 100, 0, 100), (''Noise'', 0, 0, 200)],
       Text newline], None)
   \<and> analyze_perception False text_answers =
     ([Text ''--- Table 2: Environmental Perception ---'',
       PerceptionFrame
         [(''Stuffy Air'', 50, 0, 50), (''High Temp'', 100, 0, 0), (''Noise'', 0, 0, 100)],
       Text newline], None)"
  by (simp add: perception_eval text_answers_def float_eval)

section \<open>The symptom matrix\<close>

lemma present_pct_group:
  "present_pct (group_cells floors xs f) =
     real (length (filter (\<lambda>(g, x). g = f \<and> x = Num 1) (zip floors xs)))
       / real (length (filter (\<lambda>(g, x). g = f) (zip floors xs))) * 100"
proof -
  have "filter (\<lambda>v. v = Num 1) (map snd (filter (\<lambda>(g, x). g = f) rows))
          = map snd (filter (\<lambda>(g, x). g = f \<and> x = Num 1) rows)" for rows :: "(cell \<times> cell) list"
    by (induction rows) auto
  then show ?thesis
    by (simp add: present_pct_def group_cells_def)
qed

lemma group_rows_nonempty:
  assumes "length floors = length xs" and "f \<in> set floors"
  shows "0 < length (filter (\<lambda>(g, x). g = f) (zip floors xs))"
proof -
  from assms obtain i where i: "i < length floors" "floors ! i = f"
    by (auto simp: in_set_conv_nth)
  with assms have "(f, xs ! i) \<in> set (zip floors xs)"
    by (auto simp: set_zip)
  then have "(f, xs ! i) \<in> set (filter (\<lambda>(g, x). g = f) (zip floors xs))" by simp
  then show ?thesis by (cases "filter (\<lambda>(g, x). g = f) (zip floors xs)") auto
qed

text \<open>
  Claim C4, as amended. For a floor value that occurs in the floor column and is not
  missing, the cell of a symptom is the percentage, among all rows of that floor, of the
  rows whose symptom cell is the number 1: a row whose symptom is missing stays in the
  denominator and counts as not present. A floor group is never empty, and rows whose
  floor is missing are in no group. For the symptom column \<open>[1, 0, 1, 1]\<close> with floors
  \<open>[F1, F1, F2, F2]\<close> the cells are 50 for F1 and 100 for F2.
\<close>

theorem symptom_by_floor_cell:
  assumes "length floors = length xs" and "f \<in> set floors" and "f \<noteq> Missing"
  shows "map_of (symptom_by_floor floors xs) f =
           Some (real (length (filter (\<lambda>(g, x). g = f \<and> x = Num 1) (zip floors xs)))
                   / real (length (filter (\<lambda>(g, x). g = f) (zip floors xs))) * 100)
         \<and> 0 < length (filter (\<lambda>(g, x). g = f) (zip floors xs))
         \<and> map_of (symptom_by_floor floors xs) Missing = None
         \<and> symptom_by_floor [Str ''F1'', Str ''F1'', Str ''F2'', Str ''F2'']
              [Num 1, Num 0, Num 1, Num 1] = [(Str ''F1'', 50), (Str ''F2'', 100)]"
proof -
  have key: "f \<in> set (group_keys floors)"
    using assms by (simp add: group_keys_def dropna_def)
  have cell: "map_of (symptom_by_floor floors xs) f =
           Some (real (length (filter (\<lambda>(g, x). g = f \<and> x = Num 1) (zip floors xs)))
                   / real (length (filter (\<lambda>(g, x). g = f) (zip floors xs))) * 100)"
    using key
    by (simp add: symptom_by_floor_def map_of_map_restrict restrict_map_def present_pct_group)
  have none: "map_of (symptom_by_floor floors xs) Missing = None"
    by (simp add: symptom_by_floor_def map_of_map_restrict restrict_map_def group_keys_def
        dropna_def)
  have scenario: "symptom_by_floor [Str ''F1'', Str ''F1'', Str ''F2'', Str ''F2'']
              [Num 1, Num 0, Num 1, Num 1] = [(Str ''F1'', 50), (Str ''F2'', 100)]"
    by (simp add: symptom_by_floor_def group_keys_def dropna_def group_cells_def present_pct_def)
  from cell group_rows_nonempty [OF assms(1,2)] none scenario show ?thesis by simp
qed

text \<open>
  The hypotheses hold for floor F1 of a table with a missing floor and a missing symptom:
  of the two rows of F1 one has the symptom, the other has no answer, and the cell is 50.
\<close>

theorem symptom_by_floor_cell_witness:
  "length [Str ''F1'', Missing, Str ''F1'', Str ''F2''] = length [Num 1, Num 1, Missing, Num 0]
   \<and> Str ''F1'' \<in> set [Str ''F1'', Missing, Str ''F1'', Str ''F2'']
   \<and> Str ''F1'' \<noteq> Missing
   \<and> map_of (symptom_by_floor [Str ''F1'', Missing, Str ''F1'', Str ''F2'']
                [Num 1, Num 1, Missing, Num 0]) (Str ''F1'') = Some 50"
proof -
  have h1: "length [Str ''F1'', Missing, Str ''F1'', Str ''F2'']
              = length [Num 1, Num 1, Missing, Num 0]" by simp
  have h2: "Str ''F1'' \<in> set [Str ''F1'', Missing, Str ''F1'', Str ''F2'']" by simp
  have h3: "Str ''F1'' \<noteq> Missing" by simp
  from symptom_by_floor_cell [OF h1 h2 h3] h1 h2 h3 show ?thesis by simp
qed

text \<open>
  Claim C4 as stated fails twice. Its own example gives 100 for F2, whose two rows both
  have the symptom, not 50; and a row with a missing symptom is counted in the
  denominator: one present and one missing answer on a floor give 50, not 100.
\<close>

theorem symptom_by_floor_counterexample:
  "symptom_by_floor [Str ''F1'', Str ''F1'', Str ''F2'', Str ''F2'']
     [Num 1, Num 0, Num 1, Num 1] = [(Str ''F1'', 50), (Str ''F2'', 100)]
   \<and> symptom_by_floor [Str ''F1'', Str ''F1''] [Num 1, Missing] = [(Str ''F1'', 50)]"
  by (simp add: symptom_by_floor_def group_keys_def dropna_def group_cells_def present_pct_def)

section \<open>The sensor summary\<close>

lemma sum_list_upper: "(\<And>x. x \<in> set xs \<Longrightarrow> x \<le> m) \<Longrightarrow> sum_list xs \<le> real (length xs) * m"
  by (induction xs) (auto simp: algebra_simps add_mono)

lemma sum_list_lower: "(\<And>x. x \<in> set xs \<Longrightarrow> m \<le> x) \<Longrightarrow> real (length xs) * m \<le> sum_list xs"
  by (induction xs) (auto simp: algebra_simps add_mono)

lemma numbers_dropna: "\<not> list_ex is_str xs \<Longrightarrow> map Num (numbers xs) = dropna xs"
  by (induction xs rule: numbers.induct) (auto simp: dropna_def)

lemma fold_min_Min: "fold min vs (v::real) = Min (insert v (set vs))"
  using Min.set_eq_fold [of v vs] by simp

lemma fold_max_Max: "fold max vs (v::real) = Max (insert v (set vs))"
  using Max.set_eq_fold [of v vs] by simp

lemma mean_between:
  fixes vs :: "real list"
  assumes "vs \<noteq> []"
  shows "Min (set vs) \<le> sum_list vs / real (length vs)"
    and "sum_list vs / real (length vs) \<le> Max (set vs)"
proof -
  have n: "0 < real (length vs)" using assms by simp
  have "real (length vs) * Min (set vs) \<le> sum_list vs"
    by (rule sum_list_lower) simp
  then show "Min (set vs) \<le> sum_list vs / real (length vs)"
    using n by (simp add: pos_le_divide_eq mult.commute)
  have "sum_list vs \<le> real (length vs) * Max (set vs)"
    by (rule sum_list_upper) simp
  then show "sum_list vs / real (length vs) \<le> Max (set vs)"
    using n by (simp add: pos_divide_le_eq mult.commute)
qed

text \<open>
  Claim C9, as amended. When the columns fourth, sixth and second from the end hold no
  string, the routine prints one table with, for CO2, PM2.5 and TVOC in this order, the
  minimum, the maximum and the mean of that column. For any column with a non-missing
  number: the minimum and the maximum are the least and the greatest of the non-missing
  numbers, the mean is the float64 sum of these numbers divided by their count and
  rounded, and the exact arithmetic mean lies between the minimum and the maximum. When
  exactly one float64 number is present, minimum, mean and maximum are that number.
\<close>

theorem sensor_summary:
  assumes "iloc_from_end df 4 = Inr co2" and "iloc_from_end df 6 = Inr pm25"
    and "iloc_from_end df 2 = Inr tvoc" and "\<not> list_ex is_str (co2 @ pm25 @ tvoc)"
  shows "analyze_sensors fsum df =
           ([Text ''--- Table 5: Sensor Analysis (Min, Max, Mean) ---'',
             SensorFrame
               [(''CO2 (ppm)'', [series_min co2, series_max co2, series_mean fsum co2]),
                (''PM2.5 (ug/m3)'', [series_min pm25, series_max pm25, series_mean fsum pm25]),
                (''TVOC (ppb)'', [series_min tvoc, series_max tvoc, series_mean fsum tvoc])],
             Text newline], None)
         \<and> (\<not> list_ex is_str xs \<longrightarrow> map Num (numbers xs) = dropna xs)
         \<and> (numbers xs \<noteq> [] \<longrightarrow>
               series_min xs = Fin (Min (set (numbers xs)))
               \<and> series_max xs = Fin (Max (set (numbers xs)))
               \<and> series_mean fsum xs
                   = Fin (fl (fsum (numbers xs) / real (length (numbers xs))))
               \<and> Min (set (numbers xs)) \<le> sum_list (numbers xs) / real (length (numbers xs))
               \<and> sum_list (numbers xs) / real (length (numbers xs)) \<le> Max (set (numbers xs)))
         \<and> (numbers xs = [v] \<and> fl v = v \<and> (\<forall>ys. float_sum ys (fsum ys)) \<longrightarrow>
               series_min xs = Fin v \<and> series_mean fsum xs = Fin v \<and> series_max xs = Fin v)"
proof -
  have table: "analyze_sensors fsum df =
           ([Text ''--- Table 5: Sensor Analysis (Min, Max, Mean) ---'',
             SensorFrame
               [(''CO2 (ppm)'', [series_min co2, series_max co2, series_mean fsum co2]),
                (''PM2.5 (ug/m3)'', [series_min pm25, series_max pm25, series_mean fsum pm25]),
                (''TVOC (ppb)'', [series_min tvoc, series_max tvoc, series_mean fsum tvoc])],
             Text newline], None)"
    using assms by (simp add: analyze_sensors_def sensor_entry_def)
  have stats: "series_min xs = Fin (Min (set (numbers xs)))
               \<and> series_max xs = Fin (Max (set (numbers xs)))
               \<and> series_mean fsum xs
                   = Fin (fl (fsum (numbers xs) / real (length (numbers xs))))
               \<and> Min (set (numbers xs)) \<le> sum_list (numbers xs) / real (length (numbers xs))
               \<and> sum_list (numbers xs) / real (length (numbers xs)) \<le> Max (set (numbers xs))"
    if ne: "numbers xs \<noteq> []"
  proof -
    from ne obtain u us where us: "numbers xs = u # us" by (cases "numbers xs") auto
    have "series_min xs = Fin (Min (set (numbers xs)))"
      and "series_max xs = Fin (Max (set (numbers xs)))"
      and "series_mean fsum xs = Fin (fl (fsum (numbers xs) / real (length (numbers xs))))"
      by (simp_all add: series_min_def series_max_def series_mean_def us fold_min_Min
          fold_max_Max)
    with mean_between [OF ne] show ?thesis by simp
  qed
  have single: "series_min xs = Fin v \<and> series_mean fsum xs = Fin v \<and> series_max xs = Fin v"
    if one: "numbers xs = [v]" and v: "fl v = v" and sums: "\<forall>ys. float_sum ys (fsum ys)"
  proof -
    from sums have "float_sum [v] (fsum [v])" by simp
    then have "fsum [v] = v" using v by (rule float_sum_single [OF _ refl])
    then show ?thesis
      by (simp add: series_min_def series_max_def series_mean_def one v)
  qed
  from table numbers_dropna [of xs] stats single show ?thesis by blast
qed

text \<open>
  The hypotheses hold on a table whose CO2 column is that of scenario E with a missing
  cell and whose PM2.5 column has a single reading; the mean of scenario E is the
  float64 value 773.3333333333334.
\<close>

theorem sensor_summary_witness:
  "iloc_from_end six_sensors 4 = Inr [Num 400, Missing, Num 420, Num 1500]
   \<and> iloc_from_end six_sensors 6 = Inr [Missing, Num 7, Missing, Missing]
   \<and> iloc_from_end six_sensors 2 = Inr [Num 100, Num 300, Num 100, Num 300]
   \<and> numbers [Num 400, Missing, Num 420, Num 1500] = [400, 420, 1500]
   \<and> numbers [Missing, Num 7, Missing, Missing] = [7]
   \<and> fl 7 = 7
   \<and> (\<forall>ys. float_sum ys (seq_sum ys))
   \<and> analyze_sensors seq_sum six_sensors =
       ([Text ''--- Table 5: Sensor Analysis (Min, Max, Mean) ---'',
         SensorFrame
           [(''CO2 (ppm)'', [Fin 400, Fin 1500, Fin (6802311937174187 / 8796093022208)]),
            (''PM2.5 (ug/m3)'', [Fin 7, Fin 7, Fin 7]),
            (''TVOC (ppb)'', [Fin 100, Fin 300, Fin 200])],
         Text newline], None)
   \<and> (400 :: real) \<le> (400 + 420 + 1500) / 3 \<and> (400 + 420 + 1500) / 3 \<le> (1500 :: real)"
proof -
  let ?co2 = "[Num 400, Missing, Num 420, Num 1500]"
  let ?pm = "[Missing, Num 7, Missing, Missing]"
  let ?tvoc = "[Num 100, Num 300, Num 100, Num 300]"
  have a: "iloc_from_end six_sensors 4 = Inr ?co2"
    and b: "iloc_from_end six_sensors 6 = Inr ?pm"
    and c: "iloc_from_end six_sensors 2 = Inr ?tvoc"
    by (simp_all add: iloc_from_end_def six_sensors_def)
  have d: "\<not> list_ex is_str (?co2 @ ?pm @ ?tvoc)" by simp
  have seven: "fl 7 = 7" by (simp add: float_eval)
  have sums: "\<forall>ys. float_sum ys (seq_sum ys)" by (simp add: float_sum_seq_sum)
  have n1: "numbers ?co2 = [400, 420, 1500]" and n2: "numbers ?pm = [7]"
    and n3: "numbers ?tvoc = [100, 300, 100, 300]"
    by simp_all
  note t1 = sensor_summary [OF a b c d, of seq_sum ?co2]
  note t2 = sensor_summary [OF a b c d, of seq_sum ?pm 7]
  note t3 = sensor_summary [OF a b c d, of seq_sum ?tvoc]
  from t1 n1 have co2: "series_min ?co2 = Fin 400" "series_max ?co2 = Fin 1500"
      "series_mean seq_sum ?co2 = Fin (6802311937174187 / 8796093022208)"
    by (simp_all add: seq_sum_def float_eval)
  from t2 n2 seven sums have pm: "series_min ?pm = Fin 7" "series_max ?pm = Fin 7"
      "series_mean seq_sum ?pm = Fin 7"
    by (simp_all add: seq_sum_def float_eval)
  from t3 n3 have tvoc: "series_min ?tvoc = Fin 100" "series_max ?tvoc = Fin 300"
      "series_mean seq_sum ?tvoc = Fin 200"
    by (simp_all add: seq_sum_def float_eval)
  from t1 have "analyze_sensors seq_sum six_sensors =
       ([Text ''--- Table 5: Sensor Analysis (Min, Max, Mean) ---'',
         SensorFrame
           [(''CO2 (ppm)'', [Fin 400, Fin 1500, Fin (6802311937174187 / 8796093022208)]),
            (''PM2.5 (ug/m3)'', [Fin 7, Fin 7, Fin 7]),
            (''TVOC (ppb)'', [Fin 100, Fin 300, Fin 200])],
         Text newline], None)"
    by (simp only: co2 pm tvoc)
  with a b c n1 n2 seven sums show ?thesis by simp
qed

text \<open>
  Claim C9 as stated fails: three PM2.5 readings of 0.1 have the float64 sum
  0.30000000000000004 (in whatever order three equal numbers are added), and the mean
  0.10000000000000002 is above the maximum 0.1.
\<close>

theorem sensor_summary_counterexample:
  "analyze_sensors seq_sum tenths =
     ([Text ''--- Table 5: Sensor Analysis (Min, Max, Mean) ---'',
       SensorFrame
         [(''CO2 (ppm)'', [Fin 400, Fin 1500, Fin (6802311937174187 / 8796093022208)]),
          (''PM2.5 (ug/m3)'',
             [Fin (3602879701896397 / 36028797018963968),
              Fin (3602879701896397 / 36028797018963968),
              Fin (7205759403792795 / 72057594037927936)]),
          (''TVOC (ppb)'', [Fin 100, Fin 300, Fin 200])],
       Text newline], None)
   \<and> (3602879701896397 / 36028797018963968 :: real) < 7205759403792795 / 72057594037927936
   \<and> fl (1 / 10) = 3602879701896397 / 36028797018963968"
  by (simp add: analyze_sensors_def sensor_entry_def iloc_from_end_def tenths_def
      series_min_def series_max_def series_mean_def seq_sum_def float_eval)

section \<open>The correlation engine\<close>

lemma convert_eq: "convert xs = map (\<lambda>v. if v = Str ''Yes'' then 1 else 0) xs"
  by (simp add: convert_def map_yes_no_def to_numeric_def)

lemma convert_binary: "set (convert xs) \<subseteq> {0, 1}"
  by (auto simp: convert_eq)

text \<open>
  Claim C10. For a pair whose two columns exist, the two sequences given to the Pearson
  computation hold, row by row over the rows in which neither cell is missing, 1 where the
  cell is the text "Yes" and 0 everywhere else; so every element is 0 or 1, and a cell
  that is already a number (0, 1 or 2), like any text other than "Yes", becomes 0.
\<close>

theorem converted_values_binary:
  assumes "getitem df cond = Inr cs" and "getitem df sympt = Inr ss"
  shows "pair_values df cond sympt =
           Inr (map (\<lambda>(c, s). if c = Str ''Yes'' then 1 else 0) (paired_dropna cs ss),
                map (\<lambda>(c, s). if s = Str ''Yes'' then 1 else 0) (paired_dropna cs ss))
         \<and> set (map (\<lambda>(c, s). if c = Str ''Yes'' then 1 else 0) (paired_dropna cs ss))
              \<subseteq> {0, 1 :: real}
         \<and> set (map (\<lambda>(c, s). if s = Str ''Yes'' then 1 else 0) (paired_dropna cs ss))
              \<subseteq> {0, 1 :: real}
         \<and> convert [Num 0, Num 1, Num 2, Str ''yes'', Str ''No'', Str ''Yes''] = [0, 0, 0, 0, 0, 1]"
proof -
  have "pair_values df cond sympt =
           Inr (map (\<lambda>(c, s). if c = Str ''Yes'' then 1 else 0) (paired_dropna cs ss),
                map (\<lambda>(c, s). if s = Str ''Yes'' then 1 else 0) (paired_dropna cs ss))"
    using assms by (simp add: pair_values_def Let_def convert_eq comp_def case_prod_unfold)
  moreover have "convert [Num 0, Num 1, Num 2, Str ''yes'', Str ''No'', Str ''Yes'']
                   = [0, 0, 0, 0, 0, 1]"
    by (simp add: convert_eq)
  ultimately show ?thesis by (auto split: if_splits)
qed

text \<open>
  The two columns of scenario D exist; its numeric symptom column becomes all zeros.
\<close>

theorem converted_values_binary_witness:
  "getitem scenario_D ''Condition [Do you have too much work to do?]''
     = Inr [Str ''Yes'', Str ''No'', Str ''Yes'', Str ''No'']
   \<and> getitem scenario_D ''Symptoms [Suffering from stress]'' = Inr [Num 1, Num 0, Num 1, Num 0]
   \<and> pair_values scenario_D ''Condition [Do you have too much work to do?]''
        ''Symptoms [Suffering from stress]'' = Inr ([1, 0, 1, 0], [0, 0, 0, 0])"
proof -
  have h1: "getitem scenario_D ''Condition [Do you have too much work to do?]''
     = Inr [Str ''Yes'', Str ''No'', Str ''Yes'', Str ''No'']"
    by (simp add: getitem_def scenario_D_def)
  have h2: "getitem scenario_D ''Symptoms [Suffering from stress]''
     = Inr [Num 1, Num 0, Num 1, Num 0]"
    by (simp add: getitem_def scenario_D_def)
  from converted_values_binary [OF h1 h2] h1 h2 show ?thesis
    by (simp add: paired_dropna_def)
qed

text \<open>
  Claim C1 at its own example (scenario D). The numeric symptom codes \<open>[1, 0, 1, 0]\<close>
  are not passed through but become \<open>[0, 0, 0, 0]\<close>, a constant input; the coefficient
  is NaN and the line carries no marker, whatever the p-value function. The claim says
  \<open>r = 1.00\<close> with the strong marker.
\<close>

theorem scenario_D_is_nan:
  "correlation_pair pvalue scenario_D ''Condition [Do you have too much work to do?]''
     ''Symptoms [Suffering from stress]''
   = Inr (CorrelationLine ''Condition [Do y'' ''Symptoms [Suffe'' NaN [])"
  by (simp add: correlation_pair_def pair_values_def getitem_def scenario_D_def
      paired_dropna_def convert_eq pearsonr_def is_constant_def sig_def)

text \<open>
  Claim C6. For a finite p-value the marker is the strong one exactly when \<open>p < 0.01\<close>,
  the weak one exactly when \<open>0.01 \<le> p < 0.05\<close>, and empty exactly when \<open>0.05 \<le> p\<close>; at
  \<open>p = 0.01\<close> it is the weak one and at \<open>p = 0.05\<close> it is empty (a NaN p-value gives
  the empty marker too). The marker of every printed line is this function of the
  p-value that the Pearson computation returned for the pair.
\<close>

theorem significance_marker:
  "(sig (Fin p) = ''**'' \<longleftrightarrow> p < 1 / 100) \<and>
   (sig (Fin p) = ''*'' \<longleftrightarrow> 1 / 100 \<le> p \<and> p < 5 / 100) \<and>
   (sig (Fin p) = [] \<longleftrightarrow> 5 / 100 \<le> p) \<and>
   sig (Fin (1 / 100)) = ''*'' \<and> sig (Fin (5 / 100)) = [] \<and> sig NaN = [] \<and>
   (correlation_pair pvalue df cond sympt = Inr line \<longrightarrow>
      (\<exists>c_val s_val r_val p_val.
         pair_values df cond sympt = Inr (c_val, s_val)
         \<and> pearsonr pvalue c_val s_val = Inr (r_val, p_val)
         \<and> line = CorrelationLine (take 15 cond) (take 15 sympt) r_val (sig p_val)))"
  by (auto simp: sig_def correlation_pair_def split: sum.splits prod.splits)

text \<open>
  A pair that prints a line: two observations, for which the p-value is 1 and the marker
  is empty.
\<close>

theorem significance_marker_witness:
  "correlation_pair (\<lambda>n r. 0) two_rows ''Condition [Do you have too much work to do?]''
     ''Symptoms [Suffering from stress]''
     = Inr (CorrelationLine ''Condition [Do y'' ''Symptoms [Suffe'' (Fin (- 1)) [])
   \<and> pearsonr (\<lambda>n r. 0) [1, 0] [0, 1] = Inr (Fin (- 1), Fin 1)
   \<and> sig (Fin 1) = []"
proof -
  have h: "correlation_pair (\<lambda>n r. 0) two_rows ''Condition [Do you have too much work to do?]''
     ''Symptoms [Suffering from stress]''
     = Inr (CorrelationLine ''Condition [Do y'' ''Symptoms [Suffe'' (Fin (- 1)) [])"
    by (simp add: correlation_pair_def pair_values_def getitem_def two_rows_def
      paired_dropna_def convert_eq pearsonr_def is_constant_def sig_def)
  from significance_marker [of 1 "\<lambda>n r. 0" two_rows
      "''Condition [Do you have too much work to do?]''" "''Symptoms [Suffering from stress]''"
      "CorrelationLine ''Condition [Do y'' ''Symptoms [Suffe'' (Fin (- 1)) []"] h
  show ?thesis
    by (simp add: pearsonr_def is_constant_def)
qed

lemma pair_values_length:
  "pair_values df cond sympt = Inr (c_val, s_val) \<Longrightarrow> length c_val = length s_val"
  by (auto simp: pair_values_def Let_def convert_def split: sum.splits)

lemma is_constant_single: "set x = {v} \<Longrightarrow> is_constant x"
  by (cases x) (auto simp: is_constant_def list_all_iff)

text \<open>
  Claim C2, as amended. For a pair whose columns exist: with fewer than two paired
  observations the Pearson computation raises a ValueError, which the routine does not
  catch; with at least two observations and a sequence whose values are all equal, the
  routine prints the line with the coefficient NaN and no marker.
\<close>

theorem degenerate_pairs:
  assumes "pair_values df cond sympt = Inr (c_val, s_val)"
  shows "(length c_val < 2 \<longrightarrow>
            correlation_pair pvalue df cond sympt
              = Inl (ValueError ''x and y must have length at least 2.''))
         \<and> (2 \<le> length c_val \<and> ((\<exists>v. set c_val = {v}) \<or> (\<exists>v. set s_val = {v})) \<longrightarrow>
            correlation_pair pvalue df cond sympt
              = Inr (CorrelationLine (take 15 cond) (take 15 sympt) NaN []))"
proof -
  have len: "length c_val = length s_val"
    using assms by (rule pair_values_length)
  have short: "correlation_pair pvalue df cond sympt
                 = Inl (ValueError ''x and y must have length at least 2.'')"
    if "length c_val < 2"
    using that assms len by (simp add: correlation_pair_def pearsonr_def)
  have flat: "correlation_pair pvalue df cond sympt
                = Inr (CorrelationLine (take 15 cond) (take 15 sympt) NaN [])"
    if "2 \<le> length c_val" and "(\<exists>v. set c_val = {v}) \<or> (\<exists>v. set s_val = {v})"
  proof -
    from that(2) have "is_constant c_val \<or> is_constant s_val"
      by (auto intro: is_constant_single)
    with that(1) assms len show ?thesis
      by (simp add: correlation_pair_def pearsonr_def sig_def)
  qed
  from short flat show ?thesis by blast
qed

text \<open>
  Both cases occur: one paired observation, and scenario D, whose converted symptom
  column is constant.
\<close>

theorem degenerate_pairs_witness:
  "pair_values one_row ''Condition [Do you have too much work to do?]''
     ''Symptoms [Suffering from stress]'' = Inr ([1], [0])
   \<and> length [1 :: real] < 2
   \<and> correlation_pair (\<lambda>n r. 0) one_row ''Condition [Do you have too much work to do?]''
        ''Symptoms [Suffering from stress]''
        = Inl (ValueError ''x and y must have length at least 2.'')
   \<and> pair_values scenario_D ''Condition [Do you have too much work to do?]''
        ''Symptoms [Suffering from stress]'' = Inr ([1, 0, 1, 0], [0, 0, 0, 0])
   \<and> 2 \<le> length [1, 0, 1, 0 :: real]
   \<and> set [0, 0, 0, 0 :: real] = {0}
   \<and> correlation_pair (\<lambda>n r. 0) scenario_D ''Condition [Do you have too much work to do?]''
        ''Symptoms [Suffering from stress]''
        = Inr (CorrelationLine ''Condition [Do y'' ''Symptoms [Suffe'' NaN [])"
proof -
  have h1: "pair_values one_row ''Condition [Do you have too much work to do?]''
     ''Symptoms [Suffering from stress]'' = Inr ([1], [0])"
    by (simp add: pair_values_def getitem_def one_row_def paired_dropna_def convert_eq)
  have h2: "pair_values scenario_D ''Condition [Do you have too much work to do?]''
        ''Symptoms [Suffering from stress]'' = Inr ([1, 0, 1, 0], [0, 0, 0, 0])"
    by (simp add: pair_values_def getitem_def scenario_D_def paired_dropna_def convert_eq)
  have h3: "set [0, 0, 0, 0 :: real] = {0}" by simp
  from degenerate_pairs [OF h1, of "\<lambda>n r. 0"] degenerate_pairs [OF h2, of "\<lambda>n r. 0"] h1 h2 h3
  show ?thesis by simp
qed

text \<open>
  Claim C2 as stated fails: with one paired observation the routine prints its heading
  and ends with the ValueError of the Pearson computation; no result is reported for the
  pair.
\<close>

theorem degenerate_pairs_counterexample:
  "analyze_correlations (\<lambda>n r. 0) one_row
     = ([Text ''--- Table 4: Correlation Coefficient (r) Matrix ---''],
        Some (ValueError ''x and y must have length at least 2.''))"
  by (simp add: analyze_correlations_def conditions_def correlation_symptoms_def
      correlation_pair_def pair_values_def getitem_def one_row_def paired_dropna_def
      convert_eq pearsonr_def)

section \<open>The demographic summary at a concrete table\<close>

text \<open>
  Claim C3 at a concrete table. The distribution of the duration column is keyed by the
  raw survey options (\<open>1 - 2 hours\<close>, \<open>> 4\<close>), not by the canonical bins, and the
  routine prints the status and gender tables only. The claim says that the remapping
  is applied and that the distribution of the duration is emitted with the other two.
\<close>

theorem duration_not_remapped_not_printed:
  "demographics_locals three_durations =
     Inr \<lparr>status_counts = [(Str ''Staff'', 50), (Str ''Student'', 50)],
          gender_counts = [(Str ''Female'', 50), (Str ''Male'', 50)],
          duration_dist = [(Str ''1 - 2 hours'', 50), (Str ''> 4'', 50)]\<rparr>
   \<and> analyze_demographics three_durations =
       ([Text ''--- Table 1: Socio-Demographics Analysis ---'',
         PercentageFrame [(Str ''Staff'', 50), (Str ''Student'', 50)],
         PercentageFrame [(Str ''Female'', 50), (Str ''Male'', 50)],
         Text newline], None)"
  by (simp add: analyze_demographics_def demographics_locals_def getitem_def
      three_durations_def duration_col_def value_counts_pct_def dropna_def first_seen_def
      float_eval)

section \<open>The job\<close>

text \<open>
  A sequence of runs stops at its first exception: what it printed up to there stays, and
  nothing after it runs.
\<close>

lemma run_all_stops:
  assumes "\<And>r. r \<in> set before \<Longrightarrow> snd r = None"
  shows "run_all (before @ (printed, Some e) # rest) = (concat (map fst before) @ printed, Some e)"
  using assms
proof (induction before)
  case Nil
  then show ?case by simp
next
  case (Cons r before)
  obtain p where r: "r = (p, None)"
    using Cons.prems [of r] by (cases r) auto
  from Cons show ?case by (simp add: r)
qed

lemma perception_rows_missing:
  "(label, col) \<in> set ss \<Longrightarrow> map_of df col = None
     \<Longrightarrow> \<exists>c. map_of df c = None \<and> perception_rows positional df ss = Inl (KeyError c)"
  by (induction positional df ss rule: perception_rows.induct)
     (auto simp: getitem_def split: sum.splits option.splits)

lemma matrix_columns_no_floor:
  "ss \<noteq> [] \<Longrightarrow> map_of df floor_col = None
     \<Longrightarrow> matrix_columns df ss = Inl (KeyError floor_col)"
  by (cases ss) (auto simp: getitem_def)

lemma matrix_columns_no_symptom:
  "col \<in> set ss \<Longrightarrow> map_of df col = None
     \<Longrightarrow> \<exists>c. map_of df c = None \<and> matrix_columns df ss = Inl (KeyError c)"
  by (induction ss) (auto simp: getitem_def split: sum.splits option.splits)

lemma correlation_pair_missing:
  "map_of df cond = None \<or> map_of df sympt = None
     \<Longrightarrow> \<exists>e. correlation_pair pvalue df cond sympt = Inl e"
  by (auto simp: correlation_pair_def pair_values_def getitem_def split: sum.splits option.splits)

lemma correlation_loop_raises:
  "(cond, sympt) \<in> set ps \<Longrightarrow> correlation_pair pvalue df cond sympt = Inl e
     \<Longrightarrow> snd (correlation_loop pvalue df ps) \<noteq> None"
  by (induction pvalue df ps rule: correlation_loop.induct)
     (auto split: sum.splits prod.splits)

lemma analyze_correlations_snd:
  "snd (analyze_correlations pvalue df)
     = snd (correlation_loop pvalue df (List.product conditions correlation_symptoms))"
  by (simp add: analyze_correlations_def split: prod.splits option.splits)

text \<open>
  The exceptions of Table 4: the KeyError of a missing column, or the ValueError of a pair
  with fewer than two observations.
\<close>

lemma pair_values_error:
  "pair_values df cond sympt = Inl e \<Longrightarrow> \<exists>c. e = KeyError c \<and> map_of df c = None"
  by (auto simp: pair_values_def getitem_def Let_def split: sum.splits option.splits)

lemma pearsonr_error:
  "length x = length y \<Longrightarrow> pearsonr pvalue x y = Inl e
     \<Longrightarrow> e = ValueError ''x and y must have length at least 2.''"
  by (auto simp: pearsonr_def Let_def split: if_splits)

lemma correlation_pair_error:
  assumes "correlation_pair pvalue df cond sympt = Inl e"
  shows "(\<exists>c. e = KeyError c \<and> map_of df c = None)
         \<or> e = ValueError ''x and y must have length at least 2.''"
proof (cases "pair_values df cond sympt")
  case (Inl e')
  with assms have "e = e'" by (simp add: correlation_pair_def)
  with Inl pair_values_error show ?thesis by blast
next
  case (Inr vals)
  obtain c_val s_val where vals: "vals = (c_val, s_val)" by (cases vals)
  from Inr vals have len: "length c_val = length s_val"
    by (auto dest: pair_values_length)
  from assms Inr vals have "pearsonr pvalue c_val s_val = Inl e"
    by (auto simp: correlation_pair_def split: sum.splits prod.splits)
  with len show ?thesis by (auto dest: pearsonr_error)
qed

lemma correlation_loop_error:
  "snd (correlation_loop pvalue df ps) = Some e
     \<Longrightarrow> (\<exists>c. e = KeyError c \<and> map_of df c = None)
         \<or> e = ValueError ''x and y must have length at least 2.''"
proof (induction pvalue df ps rule: correlation_loop.induct)
  case (1 pvalue df)
  then show ?case by simp
next
  case (2 pvalue df cond sympt rest)
  show ?case
  proof (cases "correlation_pair pvalue df cond sympt")
    case (Inl e')
    with "2.prems" have "e = e'" by simp
    with Inl show ?thesis by (auto dest: correlation_pair_error)
  next
    case (Inr line)
    with "2.prems" have "snd (correlation_loop pvalue df rest) = Some e"
      by (simp split: prod.splits)
    with "2.IH" Inr show ?thesis by blast
  qed
qed

text \<open>
  Claim C7, as amended. The job stops at the first analysis routine that ends with an
  exception: its output is the banner, then the output of the routines before that one,
  then what that routine printed before the exception; no later routine runs and the
  closing note is not printed. When a column that a routine reads by name is missing,
  that routine ends with an exception: Tables 1, 2 and 3 print nothing and raise the
  KeyError of a missing column (Table 1 reads the status, gender and duration columns,
  Table 2 the three stressor columns, Table 3 the floor column and its three symptom
  columns); Table 4, which reads the three condition and the three symptom columns,
  ends with the KeyError of a missing column or, when an earlier pair has fewer than two
  observations, with the ValueError of that pair. The sensor routine reads its columns by
  position, not by name: it ends with an IndexError (or a TypeError) when the table has
  fewer than six columns.
\<close>

theorem job_stops_at_first_exception:
  "(i < length (modules pvalue positional fsum df)
      \<and> snd (modules pvalue positional fsum df ! i) = Some e
      \<and> (\<forall>j<i. snd (modules pvalue positional fsum df ! j) = None)
      \<longrightarrow> main pvalue positional fsum df
            = (fst banner @ concat (map fst (take (Suc i) (modules pvalue positional fsum df))),
               Some e))
   \<and> (map_of df col = None \<and> col \<in> {''Status'', ''Gender'', duration_col}
      \<longrightarrow> (\<exists>c. map_of df c = None \<and> analyze_demographics df = ([], Some (KeyError c))))
   \<and> (map_of df col = None \<and> col \<in> snd ` set stressors
      \<longrightarrow> (\<exists>c. map_of df c = None
                \<and> analyze_perception positional df = ([], Some (KeyError c))))
   \<and> (map_of df col = None \<and> col \<in> insert floor_col (set matrix_symptoms)
      \<longrightarrow> (\<exists>c. map_of df c = None \<and> analyze_symptoms_matrix df = ([], Some (KeyError c))))
   \<and> (map_of df col = None \<and> col \<in> set conditions \<union> set correlation_symptoms
      \<longrightarrow> (\<exists>x. snd (analyze_correlations pvalue df) = Some x
                \<and> ((\<exists>c. x = KeyError c \<and> map_of df c = None)
                     \<or> x = ValueError ''x and y must have length at least 2.'')))
   \<and> (length df < 6
      \<longrightarrow> snd (analyze_sensors fsum df) = Some IndexError
          \<or> snd (analyze_sensors fsum df) = Some TypeError)"
proof -
  let ?ms = "modules pvalue positional fsum df"
  have stop: "main pvalue positional fsum df
            = (fst banner @ concat (map fst (take (Suc i) ?ms)), Some e)"
    if i: "i < length ?ms" and e: "snd (?ms ! i) = Some e"
      and before: "\<forall>j<i. snd (?ms ! j) = None"
  proof -
    have split: "?ms = take i ?ms @ (fst (?ms ! i), Some e) # drop (Suc i) ?ms"
      using i e by (metis id_take_nth_drop prod.collapse)
    have none: "snd r = None" if "r \<in> set ((fst banner, None) # take i ?ms)" for r
      using that before i by (auto simp: in_set_conv_nth)
    have b: "banner = (fst banner, None)" by (simp add: banner_def)
    have "?ms @ [closing_note]
            = (take i ?ms @ (fst (?ms ! i), Some e) # drop (Suc i) ?ms) @ [closing_note]"
      by (rule arg_cong [where f = "\<lambda>l. l @ [closing_note]"]) (rule split)
    then have "banner # ?ms @ [closing_note]
            = ((fst banner, None) # take i ?ms) @ (fst (?ms ! i), Some e)
                # (drop (Suc i) ?ms @ [closing_note])"
      using b by simp
    then have "main pvalue positional fsum df
            = run_all (((fst banner, None) # take i ?ms) @ (fst (?ms ! i), Some e)
                # (drop (Suc i) ?ms @ [closing_note]))"
      by (simp only: main_def Let_def)
    also have "\<dots> = (concat (map fst ((fst banner, None) # take i ?ms)) @ fst (?ms ! i), Some e)"
      using none by (rule run_all_stops)
    also have "concat (map fst ((fst banner, None) # take i ?ms)) @ fst (?ms ! i)
                 = fst banner @ concat (map fst (take (Suc i) ?ms))"
      using i by (simp add: take_Suc_conv_app_nth)
    finally show ?thesis .
  qed
  have demo: "\<exists>c. map_of df c = None \<and> analyze_demographics df = ([], Some (KeyError c))"
    if "map_of df col = None" and "col \<in> {''Status'', ''Gender'', duration_col}"
    using that
    by (auto simp: analyze_demographics_def demographics_locals_def getitem_def
        split: sum.splits option.splits)
  have perc: "\<exists>c. map_of df c = None \<and> analyze_perception positional df = ([], Some (KeyError c))"
    if "map_of df col = None" and "col \<in> snd ` set stressors"
  proof -
    from that(2) obtain label where "(label, col) \<in> set stressors" by auto
    from perception_rows_missing [OF this that(1), of positional] show ?thesis
      by (auto simp: analyze_perception_def)
  qed
  have matr: "\<exists>c. map_of df c = None \<and> analyze_symptoms_matrix df = ([], Some (KeyError c))"
    if "map_of df col = None" and "col \<in> insert floor_col (set matrix_symptoms)"
  proof -
    have "\<exists>c. map_of df c = None \<and> matrix_columns df matrix_symptoms = Inl (KeyError c)"
    proof (cases "col = floor_col")
      case True
      have "matrix_symptoms \<noteq> []" by (simp add: matrix_symptoms_def)
      from matrix_columns_no_floor [OF this] True that(1) show ?thesis by blast
    next
      case False
      with that show ?thesis by (intro matrix_columns_no_symptom [of col]) simp_all
    qed
    then show ?thesis by (auto simp: analyze_symptoms_matrix_def)
  qed
  have corr: "\<exists>x. snd (analyze_correlations pvalue df) = Some x
                \<and> ((\<exists>c. x = KeyError c \<and> map_of df c = None)
                     \<or> x = ValueError ''x and y must have length at least 2.'')"
    if "map_of df col = None" and "col \<in> set conditions \<union> set correlation_symptoms"
  proof -
    have "hd conditions \<in> set conditions" and "hd correlation_symptoms \<in> set correlation_symptoms"
      by (simp_all add: conditions_def correlation_symptoms_def)
    with that(2) obtain c s where cs: "c \<in> set conditions" "s \<in> set correlation_symptoms"
      and col: "col = c \<or> col = s"
      by blast
    from col that(1) have "map_of df c = None \<or> map_of df s = None" by auto
    from correlation_pair_missing [OF this]
    obtain e' where "correlation_pair pvalue df c s = Inl e'" by blast
    moreover from cs have "(c, s) \<in> set (List.product conditions correlation_symptoms)" by simp
    ultimately have "snd (correlation_loop pvalue df (List.product conditions correlation_symptoms))
                       \<noteq> None"
      by (rule correlation_loop_raises [rotated])
    then obtain x
      where x: "snd (correlation_loop pvalue df (List.product conditions correlation_symptoms))
                  = Some x"
      by auto
    from correlation_loop_error [OF x] x show ?thesis
      by (simp only: analyze_correlations_snd) blast
  qed
  have sens: "snd (analyze_sensors fsum df) = Some IndexError
                \<or> snd (analyze_sensors fsum df) = Some TypeError"
    if "length df < 6"
    using that
    by (auto simp: analyze_sensors_def sensor_entry_def iloc_from_end_def split: sum.splits)
  from stop demo perc matr corr sens show ?thesis by blast
qed

text \<open>
  The five routines on the table without a floor column, each on its own (integer keys
  read as by pandas before 3.0, sums from first to last).
\<close>

lemma no_floor_demographics:
  "analyze_demographics no_floor =
     ([Text ''--- Table 1: Socio-Demographics Analysis ---'',
       PercentageFrame [(Str ''Staff'', 50), (Str ''Student'', 50)],
       PercentageFrame [(Str ''Female'', 50), (Str ''Male'', 50)],
       Text newline], None)"
  by (simp add: analyze_demographics_def demographics_locals_def getitem_def
      no_floor_def duration_col_def value_counts_pct_def dropna_def first_seen_def float_eval)

lemma no_floor_perception:
  "analyze_perception True no_floor =
     ([Text ''--- Table 2: Environmental Perception ---'',
       PerceptionFrame
         [(''Stuffy Air'', 50, 0, 50), (''High Temp'', 100, 0, 100), (''Noise'', 0, 100, 0)],
       Text newline], None)"
  by (simp add: perception_eval no_floor_def float_eval)

lemma no_floor_matrix:
  "analyze_symptoms_matrix no_floor = ([], Some (KeyError ''Floor''))"
  by (simp add: analyze_symptoms_matrix_def matrix_symptoms_def floor_col_def getitem_def
      no_floor_def)

lemma no_floor_correlations:
  "snd (analyze_correlations (\<lambda>n r. 0) no_floor) = None"
  by (simp add: analyze_correlations_def conditions_def correlation_symptoms_def
      correlation_pair_def pair_values_def getitem_def no_floor_def paired_dropna_def
      convert_eq pearsonr_def is_constant_def)

lemma no_floor_sensors:
  "analyze_sensors seq_sum no_floor =
     ([Text ''--- Table 5: Sensor Analysis (Min, Max, Mean) ---'',
       SensorFrame [(''CO2 (ppm)'', [Fin 400, Fin 1500, Fin 950]),
                    (''PM2.5 (ug/m3)'', [Fin 12, Fin 30, Fin 21]),
                    (''TVOC (ppb)'', [Fin 100, Fin 300, Fin 200])],
       Text newline], None)"
  by (simp add: analyze_sensors_def sensor_entry_def iloc_from_end_def no_floor_def
      series_min_def series_max_def series_mean_def seq_sum_def float_eval)

text \<open>
  On the table without a floor column the hypotheses hold for the third routine. On the
  empty table Tables 1 and 2 raise a KeyError and the sensor routine an IndexError; and on
  a table without the fatigue column whose first pair has one observation, Table 4 ends
  with the ValueError.
\<close>

theorem job_stops_at_first_exception_witness:
  "main (\<lambda>n r. 0) True seq_sum no_floor
     = (fst banner @ fst (analyze_demographics no_floor)
          @ fst (analyze_perception True no_floor),
        Some (KeyError ''Floor''))
   \<and> map_of no_floor ''Floor'' = None
   \<and> (\<exists>c. map_of no_floor c = None
          \<and> analyze_symptoms_matrix no_floor = ([], Some (KeyError c)))
   \<and> (\<exists>c. map_of ([] :: dataframe) c = None
          \<and> analyze_demographics [] = ([], Some (KeyError c)))
   \<and> (\<exists>c. map_of ([] :: dataframe) c = None
          \<and> analyze_perception True [] = ([], Some (KeyError c)))
   \<and> map_of one_row ''Symptoms [Fatigue]'' = None
   \<and> snd (analyze_correlations (\<lambda>n r. 0) one_row)
       = Some (ValueError ''x and y must have length at least 2.'')
   \<and> length ([] :: dataframe) < 6
   \<and> snd (analyze_sensors seq_sum []) = Some IndexError"
proof -
  let ?pv = "\<lambda>(n::nat) (r::real). 0 :: real"
  have m: "modules ?pv True seq_sum no_floor =
             [analyze_demographics no_floor, analyze_perception True no_floor,
              ([], Some (KeyError ''Floor'')), analyze_correlations ?pv no_floor,
              analyze_sensors seq_sum no_floor]"
    by (simp add: modules_def no_floor_matrix)
  have h1: "2 < length (modules ?pv True seq_sum no_floor)" by (simp add: modules_def)
  have h2: "snd (modules ?pv True seq_sum no_floor ! 2) = Some (KeyError ''Floor'')"
    by (simp add: m)
  have h3: "\<forall>j<2. snd (modules ?pv True seq_sum no_floor ! j) = None"
  proof (intro allI impI)
    fix j :: nat
    assume "j < 2"
    then have "j = 0 \<or> j = 1" by auto
    then show "snd (modules ?pv True seq_sum no_floor ! j) = None"
      by (auto simp: m no_floor_demographics no_floor_perception)
  qed
  have t: "take 3 (modules ?pv True seq_sum no_floor) =
             [analyze_demographics no_floor, analyze_perception True no_floor,
              ([], Some (KeyError ''Floor''))]"
    by (simp add: m)
  have f: "map_of no_floor ''Floor'' = None" by (simp add: no_floor_def)
  have g: "map_of one_row ''Symptoms [Fatigue]'' = None" by (simp add: one_row_def)
  from job_stops_at_first_exception
    [of 2 ?pv True seq_sum no_floor "KeyError ''Floor''" "''Floor''"] h1 h2 h3 f
  have a: "main ?pv True seq_sum no_floor
     = (fst banner @ fst (analyze_demographics no_floor)
          @ fst (analyze_perception True no_floor),
        Some (KeyError ''Floor''))"
    and b: "\<exists>c. map_of no_floor c = None
              \<and> analyze_symptoms_matrix no_floor = ([], Some (KeyError c))"
    by (simp_all add: t floor_col_def)
  from job_stops_at_first_exception [of 0 ?pv True seq_sum "[]" undefined "''Status''"]
  have c: "\<exists>c. map_of ([] :: dataframe) c = None
              \<and> analyze_demographics [] = ([], Some (KeyError c))"
    by simp
  from job_stops_at_first_exception
    [of 0 ?pv True seq_sum "[]" undefined "''Environment [Noise]''"]
  have d: "\<exists>c. map_of ([] :: dataframe) c = None
              \<and> analyze_perception True [] = ([], Some (KeyError c))"
    by (simp add: stressors_def)
  from job_stops_at_first_exception
    [of 0 ?pv True seq_sum one_row undefined "''Symptoms [Fatigue]''"] g
  have "\<exists>x. snd (analyze_correlations ?pv one_row) = Some x
            \<and> ((\<exists>c. x = KeyError c \<and> map_of one_row c = None)
                 \<or> x = ValueError ''x and y must have length at least 2.'')"
    by (simp add: correlation_symptoms_def)
  moreover have "snd (analyze_correlations ?pv one_row)
                   = Some (ValueError ''x and y must have length at least 2.'')"
    by (simp add: analyze_correlations_def conditions_def correlation_symptoms_def
      correlation_pair_def pair_values_def getitem_def one_row_def paired_dropna_def
      convert_eq pearsonr_def)
  ultimately have e: "snd (analyze_correlations ?pv one_row)
                   = Some (ValueError ''x and y must have length at least 2.'')"
    by simp
  from job_stops_at_first_exception [of 0 ?pv True seq_sum "[]" undefined "''Status''"]
  have "snd (analyze_sensors seq_sum []) = Some IndexError
          \<or> snd (analyze_sensors seq_sum []) = Some TypeError"
    by simp
  moreover have "snd (analyze_sensors seq_sum []) \<noteq> Some TypeError"
    by (simp add: analyze_sensors_def sensor_entry_def iloc_from_end_def)
  ultimately have s: "snd (analyze_sensors seq_sum []) = Some IndexError" by blast
  from a f b c d g e s show ?thesis by simp
qed

text \<open>
  Claim C7 as stated fails. Without the floor column only Table 3 cannot be computed,
  and the correlation and sensor routines return without an exception when run on their
  own; but the job prints Tables 1 and 2 and ends with the KeyError of Table 3, so
  Tables 4 and 5 are never printed.
\<close>

theorem job_stops_counterexample:
  "main (\<lambda>n r. 0) True seq_sum no_floor =
     ([Text ''RESEARCH ANALYSIS: PUBLIC ADMIN JOURNAL'', Text (replicate 64 (CHR ''='')),
       Text ''--- Table 1: Socio-Demographics Analysis ---'',
       PercentageFrame [(Str ''Staff'', 50), (Str ''Student'', 50)],
       PercentageFrame [(Str ''Female'', 50), (Str ''Male'', 50)],
       Text newline,
       Text ''--- Table 2: Environmental Perception ---'',
       PerceptionFrame
         [(''Stuffy Air'', 50, 0, 50), (''High Temp'', 100, 0, 100), (''Noise'', 0, 100, 0)],
       Text newline],
      Some (KeyError ''Floor''))
   \<and> snd (analyze_correlations (\<lambda>n r. 0) no_floor) = None
   \<and> analyze_sensors seq_sum no_floor =
       ([Text ''--- Table 5: Sensor Analysis (Min, Max, Mean) ---'',
         SensorFrame [(''CO2 (ppm)'', [Fin 400, Fin 1500, Fin 950]),
                      (''PM2.5 (ug/m3)'', [Fin 12, Fin 30, Fin 21]),
                      (''TVOC (ppb)'', [Fin 100, Fin 300, Fin 200])],
         Text newline], None)"
proof -
  have "main (\<lambda>n r. 0) True seq_sum no_floor =
          run_all [banner, analyze_demographics no_floor, analyze_perception True no_floor,
                   analyze_symptoms_matrix no_floor, analyze_correlations (\<lambda>n r. 0) no_floor,
                   analyze_sensors seq_sum no_floor, closing_note]"
    by (simp add: main_def modules_def)
  also have "\<dots> =
     ([Text ''RESEARCH ANALYSIS: PUBLIC ADMIN JOURNAL'', Text (replicate 64 (CHR ''='')),
       Text ''--- Table 1: Socio-Demographics Analysis ---'',
       PercentageFrame [(Str ''Staff'', 50), (Str ''Student'', 50)],
       PercentageFrame [(Str ''Female'', 50), (Str ''Male'', 50)],
       Text newline,
       Text ''--- Table 2: Environmental Perception ---'',
       PerceptionFrame
         [(''Stuffy Air'', 50, 0, 50), (''High Temp'', 100, 0, 100), (''Noise'', 0, 100, 0)],
       Text newline],
      Some (KeyError ''Floor''))"
    by (simp add: banner_def no_floor_demographics no_floor_perception no_floor_matrix)
  finally show ?thesis
    using no_floor_correlations no_floor_sensors by simp
qed

end
